theory Spec2Isabelle
  imports Complex_Main
begin

section \<open>The connect proxy (web/src/app/api/connect/route.ts)\<close>

text \<open>
  The route exports one handler, \<^verbatim>\<open>POST\<close>. It reads two environment variables,
  issues one \<^verbatim>\<open>fetch\<close>, and answers with \<^verbatim>\<open>NextResponse.json\<close>. Everything it
  does beyond returning a value is written out here: a thrown value is the left summand
  of a sum, the process environment and the two effect logs (outbound calls, console) are
  fields of a state record that the handler takes and returns.
\<close>

subsection \<open>Values\<close>

text \<open>What JavaScript can throw on the handler's paths: the name of the error class and
  its message.\<close>

datatype fault = Error string | TypeError string | SyntaxError string

text \<open>A parsed JSON value, as \<^verbatim>\<open>response.json()\<close> resolves to. A number is carried
  as it is; the handler never looks into one. The members of \<open>JObj\<close> are the object's own
  properties.\<close>

datatype json =
    JNull
  | JBool bool
  | JNum real
  | JStr string
  | JArr "json list"
  | JObj "(string \<times> json) list"

text \<open>
  The property read \<^verbatim>\<open>data.k\<close>, for a key \<open>k\<close> that no built-in prototype defines
  (\<^verbatim>\<open>dailyRoom\<close> and \<^verbatim>\<open>dailyToken\<close> are such keys). \<open>None\<close> is
  \<^verbatim>\<open>undefined\<close>. Reading a property of \<^verbatim>\<open>null\<close> throws a TypeError; a boolean,
  a number, a string and an array have no such property.
\<close>

fun get_field :: "json \<Rightarrow> string \<Rightarrow> fault + json option" where
  "get_field JNull k = Inl (TypeError ''Cannot read properties of null'')"
| "get_field (JObj ps) k = Inr (map_of ps k)"
| "get_field (JBool b) k = Inr None"
| "get_field (JNum x) k = Inr None"
| "get_field (JStr x) k = Inr None"
| "get_field (JArr xs) k = Inr None"

text \<open>
  The test \<^verbatim>\<open>!v\<close> on a value of type \<^verbatim>\<open>string | undefined\<close> holds when \<open>v\<close> is
  \<^verbatim>\<open>undefined\<close> and when it is the empty string. \<open>truthy v\<close> is the string that is
  left after the guard \<^verbatim>\<open>if (!v) throw ...\<close>, and \<open>None\<close> when the guard throws.
\<close>

definition truthy :: "string option \<Rightarrow> string option" where
  "truthy v = (case v of None \<Rightarrow> None | Some x \<Rightarrow> if x = [] then None else Some x)"

text \<open>A number in a template literal: its decimal digits.\<close>

definition digit :: "nat \<Rightarrow> char" where
  "digit d = ''0123456789'' ! d"

fun string_of_nat :: "nat \<Rightarrow> string" where
  "string_of_nat n =
     (if n < 10 then [digit n] else string_of_nat (n div 10) @ [digit (n mod 10)])"

declare string_of_nat.simps [simp del]

subsection \<open>The outbound call\<close>

text \<open>The arguments of \<^verbatim>\<open>fetch(url, {method, headers, body})\<close>; \<open>http_method\<close> is
  the member \<^verbatim>\<open>method\<close>. The body is the value handed to \<^verbatim>\<open>JSON.stringify\<close>.\<close>

record request =
  url :: string
  http_method :: string
  headers :: "(string \<times> string) list"
  body :: json

text \<open>
  The \<^verbatim>\<open>Response\<close> that \<^verbatim>\<open>fetch\<close> resolves to, by the members the handler uses:
  \<^verbatim>\<open>status\<close>, \<^verbatim>\<open>statusText\<close>, and what \<^verbatim>\<open>await response.text()\<close> and
  \<^verbatim>\<open>await response.json()\<close> give (each may throw: \<^verbatim>\<open>json()\<close> does on a body that is
  not JSON).
\<close>

record response =
  status :: nat
  statusText :: string
  res_text :: "fault + string"
  res_json :: "fault + json"

text \<open>\<^verbatim>\<open>response.ok\<close>: the status is in the range 200 to 299.\<close>

definition ok :: "response \<Rightarrow> bool" where
  "ok r = (200 \<le> status r \<and> status r \<le> 299)"

text \<open>\<^verbatim>\<open>await fetch(...)\<close> either throws (a network-level fault) or gives a response.\<close>

datatype fetch_outcome = Rejected fault | Resolved response

definition connect_request :: "string \<Rightarrow> string \<Rightarrow> request" where
  "connect_request apiKey apiUrl =
     \<lparr>url = apiUrl,
      http_method = ''POST'',
      headers = [(''Authorization'', ''Bearer '' @ apiKey),
                 (''Content-Type'', ''application/json'')],
      body = JObj [(''createDailyRoom'', JBool True)]\<rparr>"

subsection \<open>The handler's answer\<close>

text \<open>
  \<^verbatim>\<open>NextResponse.json(data, init)\<close>: the status is \<^verbatim>\<open>init.status\<close>, and 200 without
  \<open>init\<close>. \<open>data\<close> is an object literal; a member whose value is \<^verbatim>\<open>undefined\<close> is
  \<open>None\<close> (the serialised body leaves such a member out).
\<close>

record next_response =
  nr_status :: nat
  nr_body :: "(string \<times> json option) list"

definition NextResponse_json :: "(string \<times> json option) list \<Rightarrow> nat option \<Rightarrow> next_response" where
  "NextResponse_json data init =
     \<lparr>nr_status = (case init of None \<Rightarrow> 200 | Some st \<Rightarrow> st), nr_body = data\<rparr>"

subsection \<open>The process\<close>

text \<open>
  \<open>env\<close> is \<^verbatim>\<open>process.env\<close>. \<open>network\<close> lists the calls of \<^verbatim>\<open>fetch\<close> made so far,
  each with its outcome; \<open>console\<close> lists the calls of \<^verbatim>\<open>console.error\<close>.
\<close>

record process =
  env :: "string \<rightharpoonup> string"
  network :: "(request \<times> fetch_outcome) list"
  console :: "(string \<times> fault) list"

subsection \<open>POST\<close>

text \<open>The body of the \<^verbatim>\<open>try\<close> block: \<open>Inl\<close> is a throw, \<open>Inr\<close> the returned response.\<close>

definition POST_try ::
  "(request \<Rightarrow> fetch_outcome) \<Rightarrow> process \<Rightarrow> (fault + next_response) \<times> process" where
  "POST_try fetch s =
     (case truthy (env s ''PIPECAT_API_KEY'') of
        None \<Rightarrow> (Inl (Error ''PIPECAT_API_KEY environment variable is required''), s)
      | Some apiKey \<Rightarrow>
     (case truthy (env s ''PIPECAT_API_URL'') of
        None \<Rightarrow> (Inl (Error ''PIPECAT_API_URL environment variable is required''), s)
      | Some apiUrl \<Rightarrow>
     (let req = connect_request apiKey apiUrl;
          outcome = fetch req;
          s1 = s\<lparr>network := network s @ [(req, outcome)]\<rparr>
      in case outcome of
        Rejected e \<Rightarrow> (Inl e, s1)
      | Resolved response \<Rightarrow>
          if \<not> ok response then
            (case res_text response of
               Inl e \<Rightarrow> (Inl e, s1)
             | Inr body_text \<Rightarrow>
                 (Inl (Error (''Pipecat API error: '' @ string_of_nat (status response)
                        @ '' '' @ statusText response @ '' '' @ body_text)), s1))
          else
            (case res_json response of
               Inl e \<Rightarrow> (Inl e, s1)
             | Inr data \<Rightarrow>
            (case get_field data ''dailyRoom'' of
               Inl e \<Rightarrow> (Inl e, s1)
             | Inr dailyRoom \<Rightarrow>
            (case get_field data ''dailyToken'' of
               Inl e \<Rightarrow> (Inl e, s1)
             | Inr dailyToken \<Rightarrow>
                 (Inr (NextResponse_json [(''url'', dailyRoom), (''token'', dailyToken)] None),
                  s1)))))))"

text \<open>The handler: the \<^verbatim>\<open>try\<close> block and its \<^verbatim>\<open>catch\<close>.\<close>

definition POST :: "(request \<Rightarrow> fetch_outcome) \<Rightarrow> process \<Rightarrow> next_response \<times> process" where
  "POST fetch s =
     (case POST_try fetch s of
        (Inr res, s1) \<Rightarrow> (res, s1)
      | (Inl error, s1) \<Rightarrow>
          (NextResponse_json
             [(''error'', Some (JStr ''Failed to connect to Pipecat service''))] (Some 500),
           s1\<lparr>console := console s1 @ [(''Error calling Pipecat API:'', error)]\<rparr>))"

subsection \<open>What one invocation does\<close>

text \<open>The calls of \<^verbatim>\<open>fetch\<close> and of \<^verbatim>\<open>console.error\<close> that one invocation adds.\<close>

definition performed ::
  "(request \<Rightarrow> fetch_outcome) \<Rightarrow> process \<Rightarrow> (request \<times> fetch_outcome) list" where
  "performed fetch s = drop (length (network s)) (network (snd (POST fetch s)))"

definition logged :: "(request \<Rightarrow> fetch_outcome) \<Rightarrow> process \<Rightarrow> (string \<times> fault) list" where
  "logged fetch s = drop (length (console s)) (console (snd (POST fetch s)))"

text \<open>The one error response of the handler.\<close>

definition generic_error :: next_response where
  "generic_error =
     \<lparr>nr_status = 500,
      nr_body = [(''error'', Some (JStr ''Failed to connect to Pipecat service''))]\<rparr>"

text \<open>An upstream that gives the same outcome to every request.\<close>

definition answering :: "fetch_outcome \<Rightarrow> request \<Rightarrow> fetch_outcome" where
  "answering outcome req = outcome"

section \<open>The paths of the handler\<close>

lemma truthy_Some_iff: "truthy v = Some x \<longleftrightarrow> v = Some x \<and> x \<noteq> []"
  by (auto simp: truthy_def split: option.splits)

lemma truthy_None_iff: "truthy v = None \<longleftrightarrow> v = None \<or> v = Some []"
  by (auto simp: truthy_def split: option.splits)

lemma POST_no_key:
  assumes "truthy (env s ''PIPECAT_API_KEY'') = None"
  shows "POST fetch s =
    (generic_error,
     s\<lparr>console := console s @
        [(''Error calling Pipecat API:'',
          Error ''PIPECAT_API_KEY environment variable is required'')]\<rparr>)"
  using assms by (simp add: POST_def POST_try_def generic_error_def NextResponse_json_def)

lemma POST_no_url:
  assumes "truthy (env s ''PIPECAT_API_KEY'') = Some k"
    and "truthy (env s ''PIPECAT_API_URL'') = None"
  shows "POST fetch s =
    (generic_error,
     s\<lparr>console := console s @
        [(''Error calling Pipecat API:'',
          Error ''PIPECAT_API_URL environment variable is required'')]\<rparr>)"
  using assms by (simp add: POST_def POST_try_def generic_error_def NextResponse_json_def)

lemma POST_try_configured:
  assumes "truthy (env s ''PIPECAT_API_KEY'') = Some k"
    and "truthy (env s ''PIPECAT_API_URL'') = Some u"
  shows "snd (POST_try fetch s) =
    s\<lparr>network := network s @ [(connect_request k u, fetch (connect_request k u))]\<rparr>"
  using assms
  by (simp add: POST_try_def Let_def split: fetch_outcome.splits sum.splits)

lemma get_field_Inl_iff: "(\<exists>e. get_field d k = Inl e) \<longleftrightarrow> d = JNull"
  by (cases d) auto

lemma get_field_not_null:
  "d \<noteq> JNull \<Longrightarrow> get_field d k = Inr (case d of JObj ps \<Rightarrow> map_of ps k | _ \<Rightarrow> None)"
  by (cases d) auto

lemma POST_configured:
  assumes "truthy (env s ''PIPECAT_API_KEY'') = Some k"
    and "truthy (env s ''PIPECAT_API_URL'') = Some u"
  shows "fst (POST fetch s) =
    (case fetch (connect_request k u) of
       Rejected e \<Rightarrow> generic_error
     | Resolved r \<Rightarrow>
         if \<not> ok r then generic_error
         else (case res_json r of
                 Inl e \<Rightarrow> generic_error
               | Inr data \<Rightarrow>
              (case get_field data ''dailyRoom'' of
                 Inl e \<Rightarrow> generic_error
               | Inr dailyRoom \<Rightarrow>
              (case get_field data ''dailyToken'' of
                 Inl e \<Rightarrow> generic_error
               | Inr dailyToken \<Rightarrow>
                   \<lparr>nr_status = 200,
                    nr_body = [(''url'', dailyRoom), (''token'', dailyToken)]\<rparr>))))"
  using assms
  by (cases "fetch (connect_request k u)")
     (auto simp: POST_def POST_try_def Let_def generic_error_def NextResponse_json_def
        split: sum.splits)

lemma network_POST_configured:
  assumes "truthy (env s ''PIPECAT_API_KEY'') = Some k"
    and "truthy (env s ''PIPECAT_API_URL'') = Some u"
  shows "network (snd (POST fetch s)) =
    network s @ [(connect_request k u, fetch (connect_request k u))]"
  using POST_try_configured [OF assms, of fetch]
  by (cases "POST_try fetch s") (auto simp: POST_def split: sum.splits)

lemma performed_configured:
  assumes "truthy (env s ''PIPECAT_API_KEY'') = Some k"
    and "truthy (env s ''PIPECAT_API_URL'') = Some u"
  shows "performed fetch s = [(connect_request k u, fetch (connect_request k u))]"
  by (simp add: performed_def network_POST_configured [OF assms])

lemma performed_unconfigured:
  assumes "truthy (env s ''PIPECAT_API_KEY'') = None \<or> truthy (env s ''PIPECAT_API_URL'') = None"
  shows "performed fetch s = []"
proof (cases "truthy (env s ''PIPECAT_API_KEY'')")
  case None
  then show ?thesis by (simp add: performed_def POST_no_key)
next
  case (Some k)
  with assms have "truthy (env s ''PIPECAT_API_URL'') = None" by simp
  with Some show ?thesis by (simp add: performed_def POST_no_url)
qed

lemma performed_mem:
  assumes "(req, outcome) \<in> set (performed fetch s)"
  obtains k u where "truthy (env s ''PIPECAT_API_KEY'') = Some k"
    and "truthy (env s ''PIPECAT_API_URL'') = Some u"
    and "req = connect_request k u" and "outcome = fetch (connect_request k u)"
proof (cases "truthy (env s ''PIPECAT_API_KEY'')")
  case None
  with assms show ?thesis by (simp add: performed_unconfigured)
next
  case k: (Some k)
  show ?thesis
  proof (cases "truthy (env s ''PIPECAT_API_URL'')")
    case None
    with assms show ?thesis by (simp add: performed_unconfigured)
  next
    case (Some u)
    with k assms that show ?thesis by (simp add: performed_configured)
  qed
qed

lemma unconfigured_generic:
  assumes "truthy (env s ''PIPECAT_API_KEY'') = None \<or> truthy (env s ''PIPECAT_API_URL'') = None"
  shows "fst (POST fetch s) = generic_error"
proof (cases "truthy (env s ''PIPECAT_API_KEY'')")
  case None
  then show ?thesis by (simp add: POST_no_key)
next
  case (Some k)
  with assms have "truthy (env s ''PIPECAT_API_URL'') = None" by simp
  with Some show ?thesis by (simp add: POST_no_url)
qed

lemma generic_error_eq:
  "generic_error =
     \<lparr>nr_status = 500,
      nr_body = [(''error'', Some (JStr ''Failed to connect to Pipecat service''))]\<rparr>"
  by (simp add: generic_error_def)

lemma POST_catch:
  "fst (POST fetch s) =
     (case fst (POST_try fetch s) of Inl e \<Rightarrow> generic_error | Inr res \<Rightarrow> res)"
  by (cases "POST_try fetch s")
     (auto simp: POST_def generic_error_def NextResponse_json_def split: sum.splits)

lemma POST_try_returns_200:
  "fst (POST_try fetch s) = Inr res \<Longrightarrow> nr_status res = 200"
  by (auto simp: POST_try_def Let_def NextResponse_json_def
      split: option.splits fetch_outcome.splits sum.splits if_splits)

lemma logged_eq:
  "logged fetch s =
    (case fst (POST_try fetch s) of
       Inl e \<Rightarrow> [(''Error calling Pipecat API:'', e)]
     | Inr res \<Rightarrow> [])"
proof -
  have "console (snd (POST_try fetch s)) = console s"
    by (auto simp: POST_try_def Let_def
        split: option.splits fetch_outcome.splits sum.splits)
  then show ?thesis
    by (cases "POST_try fetch s") (auto simp: logged_def POST_def split: sum.splits)
qed

lemma env_POST: "env (snd (POST fetch s)) = env s"
proof -
  have "env (snd (POST_try fetch s)) = env s"
    by (auto simp: POST_try_def Let_def
        split: option.splits fetch_outcome.splits sum.splits)
  then show ?thesis
    by (cases "POST_try fetch s") (auto simp: POST_def split: sum.splits)
qed

lemma POST_try_configured_fst:
  assumes "truthy (env s ''PIPECAT_API_KEY'') = Some k"
    and "truthy (env s ''PIPECAT_API_URL'') = Some u"
    and "fetch (connect_request k u) = Resolved r" and "ok r"
    and "res_json r = Inr data" and "data \<noteq> JNull"
  shows "fst (POST_try fetch s) =
    Inr \<lparr>nr_status = 200,
         nr_body = [(''url'', case data of JObj ps \<Rightarrow> map_of ps ''dailyRoom'' | _ \<Rightarrow> None),
                    (''token'', case data of JObj ps \<Rightarrow> map_of ps ''dailyToken'' | _ \<Rightarrow> None)]\<rparr>"
  using assms
  by (simp add: POST_try_def Let_def NextResponse_json_def get_field_not_null)

lemma POST_depends_on:
  assumes "env s ''PIPECAT_API_KEY'' = env s' ''PIPECAT_API_KEY''"
    and "env s ''PIPECAT_API_URL'' = env s' ''PIPECAT_API_URL''"
    and "\<forall>apiKey apiUrl.
      fetch (connect_request apiKey apiUrl) = fetch' (connect_request apiKey apiUrl)"
  shows "fst (POST fetch s) = fst (POST fetch' s')"
    and "performed fetch s = performed fetch' s'"
proof -
  have "fst (POST fetch s) = fst (POST fetch' s') \<and> performed fetch s = performed fetch' s'"
  proof (cases "truthy (env s ''PIPECAT_API_KEY'')")
    case None
    with assms(1) show ?thesis
      by (simp add: unconfigured_generic performed_unconfigured)
  next
    case k: (Some k)
    show ?thesis
    proof (cases "truthy (env s ''PIPECAT_API_URL'')")
      case None
      with assms(2) show ?thesis
        by (simp add: unconfigured_generic performed_unconfigured)
    next
      case u: (Some u)
      from k u assms(1,2) have cfg': "truthy (env s' ''PIPECAT_API_KEY'') = Some k"
        "truthy (env s' ''PIPECAT_API_URL'') = Some u"
        by simp_all
      from assms(3) show ?thesis
        by (simp add: POST_configured [OF k u] POST_configured [OF cfg']
            performed_configured [OF k u] performed_configured [OF cfg'])
    qed
  qed
  then show "fst (POST fetch s) = fst (POST fetch' s')"
    and "performed fetch s = performed fetch' s'"
    by simp_all
qed

text \<open>What tells the failures apart is the line on the console, not the response.\<close>

lemma non_2xx_is_logged:
  assumes "truthy (env s ''PIPECAT_API_KEY'') = Some k"
    and "truthy (env s ''PIPECAT_API_URL'') = Some u"
    and "fetch (connect_request k u) = Resolved r" and "\<not> ok r"
    and "res_text r = Inr b"
  shows "logged fetch s =
    [(''Error calling Pipecat API:'',
      Error (''Pipecat API error: '' @ string_of_nat (status r) @ '' '' @ statusText r
        @ '' '' @ b))]"
  using assms by (simp add: logged_eq POST_try_def Let_def)

lemma string_of_nat_403: "string_of_nat 403 = ''403''"
  by (simp add: string_of_nat.simps digit_def)

lemma forbidden_is_logged:
  "logged
     (answering (Resolved \<lparr>status = 403, statusText = ''Forbidden'',
        res_text = Inr ''forbidden'', res_json = Inl (SyntaxError ''Unexpected token'')\<rparr>))
     \<lparr>env = [''PIPECAT_API_KEY'' \<mapsto> ''sk-1'',
             ''PIPECAT_API_URL'' \<mapsto> ''https://pipecat.example/start''],
      network = [], console = []\<rparr> =
   [(''Error calling Pipecat API:'', Error ''Pipecat API error: 403 Forbidden forbidden'')]"
  by (simp add: non_2xx_is_logged [where k = "''sk-1''" and u = "''https://pipecat.example/start''"]
      truthy_def answering_def ok_def string_of_nat_403)

section \<open>The claims\<close>

text \<open>
  In the theorems below, "the upstream call returns \<open>r\<close>" is the fact that the invocation
  made an outbound call and that call resolved to \<open>r\<close>:
  \<open>(req, Resolved r) \<in> set (performed fetch s)\<close>. "A configuration value is set" is
  \<open>env s name = Some v\<close>, and "unset" is \<open>env s name = None\<close>.
\<close>

text \<open>
  C1. When both configuration values are set and the upstream POST returns status 200 with
  the JSON body \<^verbatim>\<open>{"dailyRoom": U, "dailyToken": T}\<close>, the handler returns status 200
  with the body \<^verbatim>\<open>{"url": U, "token": T}\<close>: the two members are renamed and their
  values are passed on as they are.
\<close>

theorem success_renames_fields:
  assumes "env s ''PIPECAT_API_KEY'' = Some apiKey"
    and "env s ''PIPECAT_API_URL'' = Some apiUrl"
    and "(req, Resolved r) \<in> set (performed fetch s)"
    and "status r = 200"
    and "res_json r = Inr (JObj [(''dailyRoom'', JStr U), (''dailyToken'', JStr T)])"
  shows "fst (POST fetch s) =
    \<lparr>nr_status = 200, nr_body = [(''url'', Some (JStr U)), (''token'', Some (JStr T))]\<rparr>"
proof -
  from assms(3) obtain k u
    where cfg: "truthy (env s ''PIPECAT_API_KEY'') = Some k"
      "truthy (env s ''PIPECAT_API_URL'') = Some u"
      and out: "Resolved r = fetch (connect_request k u)"
    by (rule performed_mem)
  from assms(4) have "ok r" by (simp add: ok_def)
  with out [symmetric] assms(5) show ?thesis
    by (simp add: POST_configured [OF cfg])
qed

theorem success_renames_fields_witness:
  "(connect_request ''sk-1'' ''https://pipecat.example/start'',
    Resolved \<lparr>status = 200, statusText = ''OK'',
      res_text = Inr ''{\"dailyRoom\":\"https://x.daily.co/r\",\"dailyToken\":\"tok\"}'',
      res_json = Inr (JObj [(''dailyRoom'', JStr ''https://x.daily.co/r''),
                            (''dailyToken'', JStr ''tok'')])\<rparr>)
     \<in> set (performed
        (answering (Resolved \<lparr>status = 200, statusText = ''OK'',
           res_text = Inr ''{\"dailyRoom\":\"https://x.daily.co/r\",\"dailyToken\":\"tok\"}'',
           res_json = Inr (JObj [(''dailyRoom'', JStr ''https://x.daily.co/r''),
                                 (''dailyToken'', JStr ''tok'')])\<rparr>))
        \<lparr>env = [''PIPECAT_API_KEY'' \<mapsto> ''sk-1'',
                ''PIPECAT_API_URL'' \<mapsto> ''https://pipecat.example/start''],
         network = [], console = []\<rparr>)
   \<and> fst (POST
        (answering (Resolved \<lparr>status = 200, statusText = ''OK'',
           res_text = Inr ''{\"dailyRoom\":\"https://x.daily.co/r\",\"dailyToken\":\"tok\"}'',
           res_json = Inr (JObj [(''dailyRoom'', JStr ''https://x.daily.co/r''),
                                 (''dailyToken'', JStr ''tok'')])\<rparr>))
        \<lparr>env = [''PIPECAT_API_KEY'' \<mapsto> ''sk-1'',
                ''PIPECAT_API_URL'' \<mapsto> ''https://pipecat.example/start''],
         network = [], console = []\<rparr>) =
      \<lparr>nr_status = 200,
       nr_body = [(''url'', Some (JStr ''https://x.daily.co/r'')),
                  (''token'', Some (JStr ''tok''))]\<rparr>"
proof -
  let ?s = "\<lparr>env = [''PIPECAT_API_KEY'' \<mapsto> ''sk-1'',
                    ''PIPECAT_API_URL'' \<mapsto> ''https://pipecat.example/start''],
             network = [], console = []\<rparr>"
  let ?r = "\<lparr>status = 200, statusText = ''OK'',
      res_text = Inr ''{\"dailyRoom\":\"https://x.daily.co/r\",\"dailyToken\":\"tok\"}'',
      res_json = Inr (JObj [(''dailyRoom'', JStr ''https://x.daily.co/r''),
                            (''dailyToken'', JStr ''tok'')])\<rparr>"
  have k: "env ?s ''PIPECAT_API_KEY'' = Some ''sk-1''" by simp
  have u: "env ?s ''PIPECAT_API_URL'' = Some ''https://pipecat.example/start''" by simp
  have p: "(connect_request ''sk-1'' ''https://pipecat.example/start'', Resolved ?r)
      \<in> set (performed (answering (Resolved ?r)) ?s)"
    by (simp add: performed_configured truthy_def answering_def)
  show ?thesis
    using p success_renames_fields [OF k u p, of "''https://x.daily.co/r''" "''tok''"]
    by simp
qed

text \<open>
  C2. When \<^verbatim>\<open>PIPECAT_API_KEY\<close> is unset (whatever \<^verbatim>\<open>PIPECAT_API_URL\<close> is) or
  \<^verbatim>\<open>PIPECAT_API_URL\<close> is unset, the handler returns status 500 with the body
  \<^verbatim>\<open>{"error": "Failed to connect to Pipecat service"}\<close> and makes no outbound call:
  the invocation adds nothing to the list of calls of \<^verbatim>\<open>fetch\<close>.
\<close>

theorem missing_config_fails_without_call:
  assumes "env s ''PIPECAT_API_KEY'' = None \<or> env s ''PIPECAT_API_URL'' = None"
  shows "fst (POST fetch s) =
      \<lparr>nr_status = 500,
       nr_body = [(''error'', Some (JStr ''Failed to connect to Pipecat service''))]\<rparr>
    \<and> performed fetch s = []
    \<and> network (snd (POST fetch s)) = network s"
proof -
  from assms have un: "truthy (env s ''PIPECAT_API_KEY'') = None
      \<or> truthy (env s ''PIPECAT_API_URL'') = None"
    by (auto simp: truthy_None_iff)
  have "network (snd (POST fetch s)) = network s"
  proof (cases "truthy (env s ''PIPECAT_API_KEY'')")
    case None
    then show ?thesis by (simp add: POST_no_key)
  next
    case (Some k)
    with un have "truthy (env s ''PIPECAT_API_URL'') = None" by simp
    with Some show ?thesis by (simp add: POST_no_url)
  qed
  with un show ?thesis
    by (simp add: unconfigured_generic performed_unconfigured generic_error_eq)
qed

theorem missing_config_fails_without_call_witness:
  "fst (POST (answering (Rejected (TypeError ''fetch failed'')))
        \<lparr>env = [''PIPECAT_API_URL'' \<mapsto> ''https://pipecat.example/start''],
         network = [], console = []\<rparr>) =
      \<lparr>nr_status = 500,
       nr_body = [(''error'', Some (JStr ''Failed to connect to Pipecat service''))]\<rparr>
   \<and> performed (answering (Rejected (TypeError ''fetch failed'')))
        \<lparr>env = [''PIPECAT_API_URL'' \<mapsto> ''https://pipecat.example/start''],
         network = [], console = []\<rparr> = []
   \<and> fst (POST (answering (Rejected (TypeError ''fetch failed'')))
        \<lparr>env = [''PIPECAT_API_KEY'' \<mapsto> ''sk-1''],
         network = [], console = []\<rparr>) =
      \<lparr>nr_status = 500,
       nr_body = [(''error'', Some (JStr ''Failed to connect to Pipecat service''))]\<rparr>
   \<and> performed (answering (Rejected (TypeError ''fetch failed'')))
        \<lparr>env = [''PIPECAT_API_KEY'' \<mapsto> ''sk-1''],
         network = [], console = []\<rparr> = []"
proof -
  let ?s1 = "\<lparr>env = [''PIPECAT_API_URL'' \<mapsto> ''https://pipecat.example/start''],
              network = [], console = []\<rparr>"
  let ?s2 = "\<lparr>env = [''PIPECAT_API_KEY'' \<mapsto> ''sk-1''], network = [], console = []\<rparr>"
  have h1: "env ?s1 ''PIPECAT_API_KEY'' = None \<or> env ?s1 ''PIPECAT_API_URL'' = None"
    by simp
  have h2: "env ?s2 ''PIPECAT_API_KEY'' = None \<or> env ?s2 ''PIPECAT_API_URL'' = None"
    by simp
  show ?thesis
    using missing_config_fails_without_call [OF h1]
      missing_config_fails_without_call [OF h2]
    by simp
qed

text \<open>
  C3. When both configuration values are set and the upstream call returns a status outside
  200..299, the handler returns status 500 with the body
  \<^verbatim>\<open>{"error": "Failed to connect to Pipecat service"}\<close>, and the invocation has made
  exactly one outbound call (there is no retry).
\<close>

theorem non_2xx_fails_after_one_call:
  assumes "env s ''PIPECAT_API_KEY'' = Some apiKey"
    and "env s ''PIPECAT_API_URL'' = Some apiUrl"
    and "(req, Resolved r) \<in> set (performed fetch s)"
    and "status r < 200 \<or> 299 < status r"
  shows "fst (POST fetch s) =
      \<lparr>nr_status = 500,
       nr_body = [(''error'', Some (JStr ''Failed to connect to Pipecat service''))]\<rparr>
    \<and> length (performed fetch s) = 1"
proof -
  from assms(3) obtain k u
    where cfg: "truthy (env s ''PIPECAT_API_KEY'') = Some k"
      "truthy (env s ''PIPECAT_API_URL'') = Some u"
      and out: "Resolved r = fetch (connect_request k u)"
    by (rule performed_mem)
  from assms(4) have "\<not> ok r" by (auto simp: ok_def)
  with out [symmetric] show ?thesis
    by (simp add: POST_configured [OF cfg] performed_configured [OF cfg] generic_error_eq)
qed

theorem non_2xx_fails_after_one_call_witness:
  "(connect_request ''sk-1'' ''https://pipecat.example/start'',
    Resolved \<lparr>status = 403, statusText = ''Forbidden'',
      res_text = Inr ''forbidden'', res_json = Inl (SyntaxError ''Unexpected token'')\<rparr>)
     \<in> set (performed
        (answering (Resolved \<lparr>status = 403, statusText = ''Forbidden'',
           res_text = Inr ''forbidden'', res_json = Inl (SyntaxError ''Unexpected token'')\<rparr>))
        \<lparr>env = [''PIPECAT_API_KEY'' \<mapsto> ''sk-1'',
                ''PIPECAT_API_URL'' \<mapsto> ''https://pipecat.example/start''],
         network = [], console = []\<rparr>)
   \<and> fst (POST
        (answering (Resolved \<lparr>status = 403, statusText = ''Forbidden'',
           res_text = Inr ''forbidden'', res_json = Inl (SyntaxError ''Unexpected token'')\<rparr>))
        \<lparr>env = [''PIPECAT_API_KEY'' \<mapsto> ''sk-1'',
                ''PIPECAT_API_URL'' \<mapsto> ''https://pipecat.example/start''],
         network = [], console = []\<rparr>) =
      \<lparr>nr_status = 500,
       nr_body = [(''error'', Some (JStr ''Failed to connect to Pipecat service''))]\<rparr>
   \<and> length (performed
        (answering (Resolved \<lparr>status = 403, statusText = ''Forbidden'',
           res_text = Inr ''forbidden'', res_json = Inl (SyntaxError ''Unexpected token'')\<rparr>))
        \<lparr>env = [''PIPECAT_API_KEY'' \<mapsto> ''sk-1'',
                ''PIPECAT_API_URL'' \<mapsto> ''https://pipecat.example/start''],
         network = [], console = []\<rparr>) = 1"
proof -
  let ?s = "\<lparr>env = [''PIPECAT_API_KEY'' \<mapsto> ''sk-1'',
                    ''PIPECAT_API_URL'' \<mapsto> ''https://pipecat.example/start''],
             network = [], console = []\<rparr>"
  let ?r = "\<lparr>status = 403, statusText = ''Forbidden'',
      res_text = Inr ''forbidden'', res_json = Inl (SyntaxError ''Unexpected token'')\<rparr>"
  have k: "env ?s ''PIPECAT_API_KEY'' = Some ''sk-1''" by simp
  have u: "env ?s ''PIPECAT_API_URL'' = Some ''https://pipecat.example/start''" by simp
  have p: "(connect_request ''sk-1'' ''https://pipecat.example/start'', Resolved ?r)
      \<in> set (performed (answering (Resolved ?r)) ?s)"
    by (simp add: performed_configured truthy_def answering_def)
  have st: "status ?r < 200 \<or> 299 < status ?r" by simp
  show ?thesis
    using p non_2xx_fails_after_one_call [OF k u p st] by simp
qed

text \<open>
  C4. On every failure path the handler returns the same response, status 500 with the body
  \<^verbatim>\<open>{"error": "Failed to connect to Pipecat service"}\<close>: a configuration value is
  missing, or the outbound call throws a network-level fault, or it returns a status outside
  200..299, or the body it returns does not parse; and, in general, whenever the
  \<^verbatim>\<open>try\<close> block throws anything. The right-hand side is one constant, so the
  response holds nothing of the failure's kind, of the upstream status or of the upstream
  body.
\<close>

theorem every_failure_same_response:
  assumes "env s ''PIPECAT_API_KEY'' = None \<or> env s ''PIPECAT_API_URL'' = None
    \<or> (\<exists>req e. (req, Rejected e) \<in> set (performed fetch s))
    \<or> (\<exists>req r. (req, Resolved r) \<in> set (performed fetch s)
           \<and> (status r < 200 \<or> 299 < status r))
    \<or> (\<exists>req r e. (req, Resolved r) \<in> set (performed fetch s) \<and> res_json r = Inl e)
    \<or> (\<exists>e. fst (POST_try fetch s) = Inl e)"
  shows "fst (POST fetch s) =
    \<lparr>nr_status = 500,
     nr_body = [(''error'', Some (JStr ''Failed to connect to Pipecat service''))]\<rparr>"
proof -
  consider
    (config) "env s ''PIPECAT_API_KEY'' = None \<or> env s ''PIPECAT_API_URL'' = None"
  | (network) req e where "(req, Rejected e) \<in> set (performed fetch s)"
  | (upstream) req r where "(req, Resolved r) \<in> set (performed fetch s)"
      "status r < 200 \<or> 299 < status r"
  | (shape) req r e where "(req, Resolved r) \<in> set (performed fetch s)" "res_json r = Inl e"
  | (thrown) e where "fst (POST_try fetch s) = Inl e"
    using assms by (elim disjE exE conjE) blast+
  then have "fst (POST fetch s) = generic_error"
  proof cases
    case config
    then have "truthy (env s ''PIPECAT_API_KEY'') = None
        \<or> truthy (env s ''PIPECAT_API_URL'') = None"
      by (auto simp: truthy_None_iff)
    then show ?thesis by (rule unconfigured_generic)
  next
    case network
    from network obtain k u
      where cfg: "truthy (env s ''PIPECAT_API_KEY'') = Some k"
        "truthy (env s ''PIPECAT_API_URL'') = Some u"
        and out: "Rejected e = fetch (connect_request k u)"
      by (rule performed_mem)
    from out [symmetric] show ?thesis by (simp add: POST_configured [OF cfg])
  next
    case upstream
    from upstream(1) obtain k u
      where cfg: "truthy (env s ''PIPECAT_API_KEY'') = Some k"
        "truthy (env s ''PIPECAT_API_URL'') = Some u"
        and out: "Resolved r = fetch (connect_request k u)"
      by (rule performed_mem)
    from upstream(2) have "\<not> ok r" by (auto simp: ok_def)
    with out [symmetric] show ?thesis by (simp add: POST_configured [OF cfg])
  next
    case shape
    from shape(1) obtain k u
      where cfg: "truthy (env s ''PIPECAT_API_KEY'') = Some k"
        "truthy (env s ''PIPECAT_API_URL'') = Some u"
        and out: "Resolved r = fetch (connect_request k u)"
      by (rule performed_mem)
    from out [symmetric] shape(2) show ?thesis by (simp add: POST_configured [OF cfg])
  next
    case thrown
    then show ?thesis by (simp add: POST_catch)
  qed
  then show ?thesis by (simp add: generic_error_eq)
qed

theorem every_failure_same_response_witness:
  "fst (POST (answering (Rejected (TypeError ''fetch failed'')))
        \<lparr>env = Map.empty, network = [], console = []\<rparr>) =
      \<lparr>nr_status = 500,
       nr_body = [(''error'', Some (JStr ''Failed to connect to Pipecat service''))]\<rparr>
   \<and> fst (POST (answering (Rejected (TypeError ''fetch failed'')))
        \<lparr>env = [''PIPECAT_API_KEY'' \<mapsto> ''sk-1'',
                ''PIPECAT_API_URL'' \<mapsto> ''https://pipecat.example/start''],
         network = [], console = []\<rparr>) =
      \<lparr>nr_status = 500,
       nr_body = [(''error'', Some (JStr ''Failed to connect to Pipecat service''))]\<rparr>
   \<and> fst (POST
        (answering (Resolved \<lparr>status = 403, statusText = ''Forbidden'',
           res_text = Inr ''forbidden'', res_json = Inl (SyntaxError ''Unexpected token'')\<rparr>))
        \<lparr>env = [''PIPECAT_API_KEY'' \<mapsto> ''sk-1'',
                ''PIPECAT_API_URL'' \<mapsto> ''https://pipecat.example/start''],
         network = [], console = []\<rparr>) =
      \<lparr>nr_status = 500,
       nr_body = [(''error'', Some (JStr ''Failed to connect to Pipecat service''))]\<rparr>
   \<and> fst (POST
        (answering (Resolved \<lparr>status = 200, statusText = ''OK'',
           res_text = Inr ''<html>'', res_json = Inl (SyntaxError ''Unexpected token'')\<rparr>))
        \<lparr>env = [''PIPECAT_API_KEY'' \<mapsto> ''sk-1'',
                ''PIPECAT_API_URL'' \<mapsto> ''https://pipecat.example/start''],
         network = [], console = []\<rparr>) =
      \<lparr>nr_status = 500,
       nr_body = [(''error'', Some (JStr ''Failed to connect to Pipecat service''))]\<rparr>"
proof -
  let ?blank = "\<lparr>env = Map.empty, network = [], console = []\<rparr>"
  let ?s = "\<lparr>env = [''PIPECAT_API_KEY'' \<mapsto> ''sk-1'',
                    ''PIPECAT_API_URL'' \<mapsto> ''https://pipecat.example/start''],
             network = [], console = []\<rparr>"
  let ?req = "connect_request ''sk-1'' ''https://pipecat.example/start''"
  let ?e = "TypeError ''fetch failed''"
  let ?r403 = "\<lparr>status = 403, statusText = ''Forbidden'',
           res_text = Inr ''forbidden'', res_json = Inl (SyntaxError ''Unexpected token'')\<rparr>"
  let ?r200 = "\<lparr>status = 200, statusText = ''OK'',
           res_text = Inr ''<html>'', res_json = Inl (SyntaxError ''Unexpected token'')\<rparr>"
  have a: "env ?blank ''PIPECAT_API_KEY'' = None" by simp
  have b: "(?req, Rejected ?e) \<in> set (performed (answering (Rejected ?e)) ?s)"
    by (simp add: performed_configured truthy_def answering_def)
  have c: "(?req, Resolved ?r403) \<in> set (performed (answering (Resolved ?r403)) ?s)
      \<and> (status ?r403 < 200 \<or> 299 < status ?r403)"
    by (simp add: performed_configured truthy_def answering_def)
  have d: "(?req, Resolved ?r200) \<in> set (performed (answering (Resolved ?r200)) ?s)
      \<and> res_json ?r200 = Inl (SyntaxError ''Unexpected token'')"
    by (simp add: performed_configured truthy_def answering_def)
  have "fst (POST (answering (Rejected ?e)) ?blank) = generic_error"
    using every_failure_same_response [of ?blank "answering (Rejected ?e)"] a
    by (simp add: generic_error_eq)
  moreover have "fst (POST (answering (Rejected ?e)) ?s) = generic_error"
    using every_failure_same_response [of ?s "answering (Rejected ?e)"] b
    unfolding generic_error_eq by blast
  moreover have "fst (POST (answering (Resolved ?r403)) ?s) = generic_error"
    using every_failure_same_response [of ?s "answering (Resolved ?r403)"] c
    unfolding generic_error_eq by blast
  moreover have "fst (POST (answering (Resolved ?r200)) ?s) = generic_error"
    using every_failure_same_response [of ?s "answering (Resolved ?r200)"] d
    unfolding generic_error_eq by blast
  ultimately show ?thesis by (simp add: generic_error_eq)
qed

text \<open>
  C5. When both configuration values are set and the upstream call returns a status in
  200..299 whose body does not parse as JSON (\<^verbatim>\<open>response.json()\<close> throws \<open>e\<close>), the
  handler returns status 500 with the body
  \<^verbatim>\<open>{"error": "Failed to connect to Pipecat service"}\<close>: the \<^verbatim>\<open>try\<close> block throws
  \<open>e\<close>, and the \<^verbatim>\<open>catch\<close> logs it and answers.
\<close>

theorem unparsable_body_fails:
  assumes "env s ''PIPECAT_API_KEY'' = Some apiKey"
    and "env s ''PIPECAT_API_URL'' = Some apiUrl"
    and "(req, Resolved r) \<in> set (performed fetch s)"
    and "200 \<le> status r" and "status r \<le> 299"
    and "res_json r = Inl e"
  shows "fst (POST fetch s) =
      \<lparr>nr_status = 500,
       nr_body = [(''error'', Some (JStr ''Failed to connect to Pipecat service''))]\<rparr>
    \<and> fst (POST_try fetch s) = Inl e
    \<and> logged fetch s = [(''Error calling Pipecat API:'', e)]"
proof -
  from assms(3) obtain k u
    where cfg: "truthy (env s ''PIPECAT_API_KEY'') = Some k"
      "truthy (env s ''PIPECAT_API_URL'') = Some u"
      and out: "Resolved r = fetch (connect_request k u)"
    by (rule performed_mem)
  from assms(4,5) have "ok r" by (simp add: ok_def)
  with cfg out [symmetric] assms(6) have thrown: "fst (POST_try fetch s) = Inl e"
    by (simp add: POST_try_def Let_def)
  then show ?thesis
    by (simp add: POST_catch logged_eq generic_error_eq)
qed

theorem unparsable_body_fails_witness:
  "(connect_request ''sk-1'' ''https://pipecat.example/start'',
    Resolved \<lparr>status = 200, statusText = ''OK'',
      res_text = Inr ''<html>'', res_json = Inl (SyntaxError ''Unexpected token'')\<rparr>)
     \<in> set (performed
        (answering (Resolved \<lparr>status = 200, statusText = ''OK'',
           res_text = Inr ''<html>'', res_json = Inl (SyntaxError ''Unexpected token'')\<rparr>))
        \<lparr>env = [''PIPECAT_API_KEY'' \<mapsto> ''sk-1'',
                ''PIPECAT_API_URL'' \<mapsto> ''https://pipecat.example/start''],
         network = [], console = []\<rparr>)
   \<and> fst (POST
        (answering (Resolved \<lparr>status = 200, statusText = ''OK'',
           res_text = Inr ''<html>'', res_json = Inl (SyntaxError ''Unexpected token'')\<rparr>))
        \<lparr>env = [''PIPECAT_API_KEY'' \<mapsto> ''sk-1'',
                ''PIPECAT_API_URL'' \<mapsto> ''https://pipecat.example/start''],
         network = [], console = []\<rparr>) =
      \<lparr>nr_status = 500,
       nr_body = [(''error'', Some (JStr ''Failed to connect to Pipecat service''))]\<rparr>
   \<and> logged
        (answering (Resolved \<lparr>status = 200, statusText = ''OK'',
           res_text = Inr ''<html>'', res_json = Inl (SyntaxError ''Unexpected token'')\<rparr>))
        \<lparr>env = [''PIPECAT_API_KEY'' \<mapsto> ''sk-1'',
                ''PIPECAT_API_URL'' \<mapsto> ''https://pipecat.example/start''],
         network = [], console = []\<rparr> =
      [(''Error calling Pipecat API:'', SyntaxError ''Unexpected token'')]"
proof -
  let ?s = "\<lparr>env = [''PIPECAT_API_KEY'' \<mapsto> ''sk-1'',
                    ''PIPECAT_API_URL'' \<mapsto> ''https://pipecat.example/start''],
             network = [], console = []\<rparr>"
  let ?r = "\<lparr>status = 200, statusText = ''OK'',
           res_text = Inr ''<html>'', res_json = Inl (SyntaxError ''Unexpected token'')\<rparr>"
  have k: "env ?s ''PIPECAT_API_KEY'' = Some ''sk-1''" by simp
  have u: "env ?s ''PIPECAT_API_URL'' = Some ''https://pipecat.example/start''" by simp
  have p: "(connect_request ''sk-1'' ''https://pipecat.example/start'', Resolved ?r)
      \<in> set (performed (answering (Resolved ?r)) ?s)"
    by (simp add: performed_configured truthy_def answering_def)
  have lo: "200 \<le> status ?r" and hi: "status ?r \<le> 299"
    and j: "res_json ?r = Inl (SyntaxError ''Unexpected token'')"
    by simp_all
  show ?thesis
    using p unparsable_body_fails [OF k u p lo hi j] by simp
qed

text \<open>
  C6. When both configuration values are set and the upstream returns 200 with a JSON object
  that lacks \<^verbatim>\<open>dailyRoom\<close> and/or \<^verbatim>\<open>dailyToken\<close>, the handler returns status 200,
  and the member \<^verbatim>\<open>url\<close> (\<^verbatim>\<open>token\<close>) of its body is \<^verbatim>\<open>undefined\<close> where
  \<^verbatim>\<open>dailyRoom\<close> (\<^verbatim>\<open>dailyToken\<close>) is missing: the handler reads the two members and
  checks nothing.
\<close>

theorem missing_fields_are_undefined:
  assumes "env s ''PIPECAT_API_KEY'' = Some apiKey"
    and "env s ''PIPECAT_API_URL'' = Some apiUrl"
    and "(req, Resolved r) \<in> set (performed fetch s)"
    and "status r = 200"
    and "res_json r = Inr (JObj ps)"
  shows "fst (POST fetch s) =
      \<lparr>nr_status = 200,
       nr_body = [(''url'', map_of ps ''dailyRoom''), (''token'', map_of ps ''dailyToken'')]\<rparr>
    \<and> (''dailyRoom'' \<notin> fst ` set ps \<longrightarrow>
          map_of (nr_body (fst (POST fetch s))) ''url'' = Some None)
    \<and> (''dailyToken'' \<notin> fst ` set ps \<longrightarrow>
          map_of (nr_body (fst (POST fetch s))) ''token'' = Some None)"
proof -
  from assms(3) obtain k u
    where cfg: "truthy (env s ''PIPECAT_API_KEY'') = Some k"
      "truthy (env s ''PIPECAT_API_URL'') = Some u"
      and out: "Resolved r = fetch (connect_request k u)"
    by (rule performed_mem)
  from assms(4) have "ok r" by (simp add: ok_def)
  with out [symmetric] assms(5) have res: "fst (POST fetch s) =
      \<lparr>nr_status = 200,
       nr_body = [(''url'', map_of ps ''dailyRoom''), (''token'', map_of ps ''dailyToken'')]\<rparr>"
    by (simp add: POST_configured [OF cfg])
  then show ?thesis
    by (simp add: map_of_eq_None_iff)
qed

theorem missing_fields_are_undefined_witness:
  "(connect_request ''sk-1'' ''https://pipecat.example/start'',
    Resolved \<lparr>status = 200, statusText = ''OK'',
      res_text = Inr ''{\"dailyRoom\":\"https://x.daily.co/r\"}'',
      res_json = Inr (JObj [(''dailyRoom'', JStr ''https://x.daily.co/r'')])\<rparr>)
     \<in> set (performed
        (answering (Resolved \<lparr>status = 200, statusText = ''OK'',
           res_text = Inr ''{\"dailyRoom\":\"https://x.daily.co/r\"}'',
           res_json = Inr (JObj [(''dailyRoom'', JStr ''https://x.daily.co/r'')])\<rparr>))
        \<lparr>env = [''PIPECAT_API_KEY'' \<mapsto> ''sk-1'',
                ''PIPECAT_API_URL'' \<mapsto> ''https://pipecat.example/start''],
         network = [], console = []\<rparr>)
   \<and> fst (POST
        (answering (Resolved \<lparr>status = 200, statusText = ''OK'',
           res_text = Inr ''{\"dailyRoom\":\"https://x.daily.co/r\"}'',
           res_json = Inr (JObj [(''dailyRoom'', JStr ''https://x.daily.co/r'')])\<rparr>))
        \<lparr>env = [''PIPECAT_API_KEY'' \<mapsto> ''sk-1'',
                ''PIPECAT_API_URL'' \<mapsto> ''https://pipecat.example/start''],
         network = [], console = []\<rparr>) =
      \<lparr>nr_status = 200,
       nr_body = [(''url'', Some (JStr ''https://x.daily.co/r'')), (''token'', None)]\<rparr>
   \<and> fst (POST
        (answering (Resolved \<lparr>status = 200, statusText = ''OK'',
           res_text = Inr ''{}'', res_json = Inr (JObj [])\<rparr>))
        \<lparr>env = [''PIPECAT_API_KEY'' \<mapsto> ''sk-1'',
                ''PIPECAT_API_URL'' \<mapsto> ''https://pipecat.example/start''],
         network = [], console = []\<rparr>) =
      \<lparr>nr_status = 200, nr_body = [(''url'', None), (''token'', None)]\<rparr>"
proof -
  let ?s = "\<lparr>env = [''PIPECAT_API_KEY'' \<mapsto> ''sk-1'',
                    ''PIPECAT_API_URL'' \<mapsto> ''https://pipecat.example/start''],
             network = [], console = []\<rparr>"
  let ?req = "connect_request ''sk-1'' ''https://pipecat.example/start''"
  let ?r = "\<lparr>status = 200, statusText = ''OK'',
      res_text = Inr ''{\"dailyRoom\":\"https://x.daily.co/r\"}'',
      res_json = Inr (JObj [(''dailyRoom'', JStr ''https://x.daily.co/r'')])\<rparr>"
  let ?q = "\<lparr>status = 200, statusText = ''OK'',
      res_text = Inr ''{}'', res_json = Inr (JObj [])\<rparr>"
  have k: "env ?s ''PIPECAT_API_KEY'' = Some ''sk-1''" by simp
  have u: "env ?s ''PIPECAT_API_URL'' = Some ''https://pipecat.example/start''" by simp
  have p: "(?req, Resolved ?r) \<in> set (performed (answering (Resolved ?r)) ?s)"
    by (simp add: performed_configured truthy_def answering_def)
  have q: "(?req, Resolved ?q) \<in> set (performed (answering (Resolved ?q)) ?s)"
    by (simp add: performed_configured truthy_def answering_def)
  have st: "status ?r = 200" "status ?q = 200" by simp_all
  have jr: "res_json ?r = Inr (JObj [(''dailyRoom'', JStr ''https://x.daily.co/r'')])"
    and jq: "res_json ?q = Inr (JObj [])" by simp_all
  show ?thesis
    using p missing_fields_are_undefined [OF k u p st(1) jr]
      missing_fields_are_undefined [OF k u q st(2) jq]
    by simp
qed

text \<open>
  C7, as amended. When both configuration values are set to non-empty strings, the invocation
  makes one outbound call: an HTTP POST to the configured \<^verbatim>\<open>PIPECAT_API_URL\<close>, with the
  headers \<^verbatim>\<open>Authorization: Bearer <PIPECAT_API_KEY>\<close> and
  \<^verbatim>\<open>Content-Type: application/json\<close> and no other, and the JSON body
  \<^verbatim>\<open>{"createDailyRoom": true}\<close>.
\<close>

theorem outbound_request_shape:
  assumes "env s ''PIPECAT_API_KEY'' = Some apiKey" and "apiKey \<noteq> ''''"
    and "env s ''PIPECAT_API_URL'' = Some apiUrl" and "apiUrl \<noteq> ''''"
  shows "map fst (performed fetch s) =
    [\<lparr>url = apiUrl,
      http_method = ''POST'',
      headers = [(''Authorization'', ''Bearer '' @ apiKey),
                 (''Content-Type'', ''application/json'')],
      body = JObj [(''createDailyRoom'', JBool True)]\<rparr>]"
proof -
  from assms have cfg: "truthy (env s ''PIPECAT_API_KEY'') = Some apiKey"
    "truthy (env s ''PIPECAT_API_URL'') = Some apiUrl"
    by (simp_all add: truthy_Some_iff)
  show ?thesis
    by (simp add: performed_configured [OF cfg] connect_request_def)
qed

theorem outbound_request_shape_witness:
  "map fst (performed (answering (Rejected (TypeError ''fetch failed'')))
      \<lparr>env = [''PIPECAT_API_KEY'' \<mapsto> ''sk-1'',
              ''PIPECAT_API_URL'' \<mapsto> ''https://pipecat.example/start''],
       network = [], console = []\<rparr>) =
    [\<lparr>url = ''https://pipecat.example/start'',
      http_method = ''POST'',
      headers = [(''Authorization'', ''Bearer sk-1''),
                 (''Content-Type'', ''application/json'')],
      body = JObj [(''createDailyRoom'', JBool True)]\<rparr>]"
proof -
  let ?s = "\<lparr>env = [''PIPECAT_API_KEY'' \<mapsto> ''sk-1'',
                    ''PIPECAT_API_URL'' \<mapsto> ''https://pipecat.example/start''],
             network = [], console = []\<rparr>"
  have k: "env ?s ''PIPECAT_API_KEY'' = Some ''sk-1''" and kn: "''sk-1'' \<noteq> ''''"
    and u: "env ?s ''PIPECAT_API_URL'' = Some ''https://pipecat.example/start''"
    and un: "''https://pipecat.example/start'' \<noteq> ''''"
    by simp_all
  show ?thesis
    using outbound_request_shape [OF k kn u un] by simp
qed

text \<open>
  C7 as stated fails on an empty value. The guards \<^verbatim>\<open>if (!apiKey)\<close> and
  \<^verbatim>\<open>if (!apiUrl)\<close> test for a value that is \<^verbatim>\<open>undefined\<close> or empty. With \<^verbatim>\<open>PIPECAT_API_KEY\<close> set to the empty string and
  \<^verbatim>\<open>PIPECAT_API_URL\<close> set to a URL, both values are set and the invocation makes no
  outbound call at all.
\<close>

theorem empty_key_makes_no_call:
  "env \<lparr>env = [''PIPECAT_API_KEY'' \<mapsto> '''',
               ''PIPECAT_API_URL'' \<mapsto> ''https://pipecat.example/start''],
        network = [], console = []\<rparr> ''PIPECAT_API_KEY'' = Some ''''
   \<and> env \<lparr>env = [''PIPECAT_API_KEY'' \<mapsto> '''',
               ''PIPECAT_API_URL'' \<mapsto> ''https://pipecat.example/start''],
        network = [], console = []\<rparr> ''PIPECAT_API_URL'' =
         Some ''https://pipecat.example/start''
   \<and> performed
        (answering (Resolved \<lparr>status = 200, statusText = ''OK'',
           res_text = Inr ''{}'', res_json = Inr (JObj [])\<rparr>))
        \<lparr>env = [''PIPECAT_API_KEY'' \<mapsto> '''',
                ''PIPECAT_API_URL'' \<mapsto> ''https://pipecat.example/start''],
         network = [], console = []\<rparr> = []"
  by (simp add: performed_def POST_def POST_try_def truthy_def)

text \<open>
  C8. The handler is stateless and deterministic. Two invocations with the same two
  configuration values, whose upstream gives the same outcome (response or fault) to the
  connect request, return the same response and make the same outbound calls, whatever
  else differs between the two process states (the rest of the environment, the calls and
  the log lines of the past). An invocation leaves the environment as it found it, so an
  earlier invocation changes nothing in the answer of a later one.
\<close>

theorem stateless_deterministic:
  assumes "env s ''PIPECAT_API_KEY'' = env s' ''PIPECAT_API_KEY''"
    and "env s ''PIPECAT_API_URL'' = env s' ''PIPECAT_API_URL''"
    and "\<forall>apiKey apiUrl.
      fetch (connect_request apiKey apiUrl) = fetch' (connect_request apiKey apiUrl)"
  shows "fst (POST fetch s) = fst (POST fetch' s')
    \<and> performed fetch s = performed fetch' s'
    \<and> env (snd (POST earlier s)) = env s
    \<and> fst (POST fetch (snd (POST earlier s))) = fst (POST fetch' s')"
proof -
  have same: "env (snd (POST earlier s)) = env s" by (rule env_POST)
  with assms(1,2)
  have "env (snd (POST earlier s)) ''PIPECAT_API_KEY'' = env s' ''PIPECAT_API_KEY''"
    and "env (snd (POST earlier s)) ''PIPECAT_API_URL'' = env s' ''PIPECAT_API_URL''"
    by simp_all
  then have "fst (POST fetch (snd (POST earlier s))) = fst (POST fetch' s')"
    using assms(3) by (rule POST_depends_on(1))
  with same POST_depends_on [OF assms] show ?thesis by simp
qed

theorem stateless_deterministic_witness:
  "fst (POST
      (answering (Resolved \<lparr>status = 200, statusText = ''OK'',
         res_text = Inr ''{\"dailyRoom\":\"https://x.daily.co/r\",\"dailyToken\":\"tok\"}'',
         res_json = Inr (JObj [(''dailyRoom'', JStr ''https://x.daily.co/r''),
                               (''dailyToken'', JStr ''tok'')])\<rparr>))
      \<lparr>env = [''PIPECAT_API_KEY'' \<mapsto> ''sk-1'',
              ''PIPECAT_API_URL'' \<mapsto> ''https://pipecat.example/start''],
       network = [], console = []\<rparr>) =
   fst (POST
      (answering (Resolved \<lparr>status = 200, statusText = ''OK'',
         res_text = Inr ''{\"dailyRoom\":\"https://x.daily.co/r\",\"dailyToken\":\"tok\"}'',
         res_json = Inr (JObj [(''dailyRoom'', JStr ''https://x.daily.co/r''),
                               (''dailyToken'', JStr ''tok'')])\<rparr>))
      \<lparr>env = [''PIPECAT_API_KEY'' \<mapsto> ''sk-1'',
              ''PIPECAT_API_URL'' \<mapsto> ''https://pipecat.example/start'',
              ''NODE_ENV'' \<mapsto> ''production''],
       network = [(connect_request ''sk-1'' ''https://pipecat.example/start'',
                   Rejected (TypeError ''fetch failed''))],
       console = [(''Error calling Pipecat API:'', TypeError ''fetch failed'')]\<rparr>)
   \<and> fst (POST
      (answering (Resolved \<lparr>status = 200, statusText = ''OK'',
         res_text = Inr ''{\"dailyRoom\":\"https://x.daily.co/r\",\"dailyToken\":\"tok\"}'',
         res_json = Inr (JObj [(''dailyRoom'', JStr ''https://x.daily.co/r''),
                               (''dailyToken'', JStr ''tok'')])\<rparr>))
      (snd (POST (answering (Rejected (TypeError ''fetch failed'')))
        \<lparr>env = [''PIPECAT_API_KEY'' \<mapsto> ''sk-1'',
                ''PIPECAT_API_URL'' \<mapsto> ''https://pipecat.example/start''],
         network = [], console = []\<rparr>))) =
     \<lparr>nr_status = 200,
      nr_body = [(''url'', Some (JStr ''https://x.daily.co/r'')),
                 (''token'', Some (JStr ''tok''))]\<rparr>"
proof -
  let ?a = "\<lparr>env = [''PIPECAT_API_KEY'' \<mapsto> ''sk-1'',
                    ''PIPECAT_API_URL'' \<mapsto> ''https://pipecat.example/start''],
             network = [], console = []\<rparr>"
  let ?b = "\<lparr>env = [''PIPECAT_API_KEY'' \<mapsto> ''sk-1'',
              ''PIPECAT_API_URL'' \<mapsto> ''https://pipecat.example/start'',
              ''NODE_ENV'' \<mapsto> ''production''],
       network = [(connect_request ''sk-1'' ''https://pipecat.example/start'',
                   Rejected (TypeError ''fetch failed''))],
       console = [(''Error calling Pipecat API:'', TypeError ''fetch failed'')]\<rparr>"
  let ?up = "answering (Resolved \<lparr>status = 200, statusText = ''OK'',
         res_text = Inr ''{\"dailyRoom\":\"https://x.daily.co/r\",\"dailyToken\":\"tok\"}'',
         res_json = Inr (JObj [(''dailyRoom'', JStr ''https://x.daily.co/r''),
                               (''dailyToken'', JStr ''tok'')])\<rparr>)"
  have k: "env ?a ''PIPECAT_API_KEY'' = env ?b ''PIPECAT_API_KEY''"
    and u: "env ?a ''PIPECAT_API_URL'' = env ?b ''PIPECAT_API_URL''"
    by simp_all
  have f: "\<forall>apiKey apiUrl.
      ?up (connect_request apiKey apiUrl) = ?up (connect_request apiKey apiUrl)"
    by simp
  have val: "fst (POST ?up ?b) =
     \<lparr>nr_status = 200,
      nr_body = [(''url'', Some (JStr ''https://x.daily.co/r'')),
                 (''token'', Some (JStr ''tok''))]\<rparr>"
    by (simp add: POST_def POST_try_def truthy_def Let_def answering_def ok_def
        NextResponse_json_def)
  show ?thesis
    using stateless_deterministic [OF k u f,
        of "answering (Rejected (TypeError ''fetch failed''))"] val
    by simp
qed

text \<open>
  C9. The handler is total at its boundary. For every process state and every upstream, it
  returns a response, and the status of that response is 200 or 500: whatever the
  \<^verbatim>\<open>try\<close> block throws, the \<^verbatim>\<open>catch\<close> turns into the 500 response, and what the
  block returns is returned.
\<close>

theorem total_at_boundary:
  "(nr_status (fst (POST fetch s)) = 200 \<or> nr_status (fst (POST fetch s)) = 500)
   \<and> fst (POST fetch s) =
       (case fst (POST_try fetch s) of
          Inl e \<Rightarrow> \<lparr>nr_status = 500,
             nr_body = [(''error'', Some (JStr ''Failed to connect to Pipecat service''))]\<rparr>
        | Inr res \<Rightarrow> res)"
proof (cases "fst (POST_try fetch s)")
  case (Inl e)
  then show ?thesis by (simp add: POST_catch generic_error_eq)
next
  case (Inr res)
  then show ?thesis by (simp add: POST_catch POST_try_returns_200)
qed

text \<open>
  C10, as amended. For every upstream response with a status in 200..299 and a body that
  parses as JSON to a value other than \<^verbatim>\<open>null\<close>, the handler takes the success path
  (the \<^verbatim>\<open>try\<close> block returns, nothing is logged) and its status is 200, whatever the
  upstream's own status in that range.
\<close>

theorem any_2xx_answers_200:
  assumes "(req, Resolved r) \<in> set (performed fetch s)"
    and "200 \<le> status r" and "status r \<le> 299"
    and "res_json r = Inr data" and "data \<noteq> JNull"
  shows "fst (POST_try fetch s) = Inr (fst (POST fetch s))
    \<and> nr_status (fst (POST fetch s)) = 200
    \<and> logged fetch s = []"
proof -
  from assms(1) obtain k u
    where cfg: "truthy (env s ''PIPECAT_API_KEY'') = Some k"
      "truthy (env s ''PIPECAT_API_URL'') = Some u"
      and out: "Resolved r = fetch (connect_request k u)"
    by (rule performed_mem)
  from assms(2,3) have "ok r" by (simp add: ok_def)
  with cfg out [symmetric] assms(4,5) have "\<exists>res. fst (POST_try fetch s) = Inr res"
    by (simp add: POST_try_configured_fst [where fetch = fetch and r = r])
  then obtain res where "fst (POST_try fetch s) = Inr res" ..
  then show ?thesis by (simp add: POST_catch logged_eq POST_try_returns_200)
qed

theorem any_2xx_answers_200_witness:
  "(connect_request ''sk-1'' ''https://pipecat.example/start'',
    Resolved \<lparr>status = 201, statusText = ''Created'',
      res_text = Inr ''{\"dailyRoom\":\"https://x.daily.co/r\",\"dailyToken\":\"tok\"}'',
      res_json = Inr (JObj [(''dailyRoom'', JStr ''https://x.daily.co/r''),
                            (''dailyToken'', JStr ''tok'')])\<rparr>)
     \<in> set (performed
        (answering (Resolved \<lparr>status = 201, statusText = ''Created'',
           res_text = Inr ''{\"dailyRoom\":\"https://x.daily.co/r\",\"dailyToken\":\"tok\"}'',
           res_json = Inr (JObj [(''dailyRoom'', JStr ''https://x.daily.co/r''),
                                 (''dailyToken'', JStr ''tok'')])\<rparr>))
        \<lparr>env = [''PIPECAT_API_KEY'' \<mapsto> ''sk-1'',
                ''PIPECAT_API_URL'' \<mapsto> ''https://pipecat.example/start''],
         network = [], console = []\<rparr>)
   \<and> nr_status (fst (POST
        (answering (Resolved \<lparr>status = 201, statusText = ''Created'',
           res_text = Inr ''{\"dailyRoom\":\"https://x.daily.co/r\",\"dailyToken\":\"tok\"}'',
           res_json = Inr (JObj [(''dailyRoom'', JStr ''https://x.daily.co/r''),
                                 (''dailyToken'', JStr ''tok'')])\<rparr>))
        \<lparr>env = [''PIPECAT_API_KEY'' \<mapsto> ''sk-1'',
                ''PIPECAT_API_URL'' \<mapsto> ''https://pipecat.example/start''],
         network = [], console = []\<rparr>)) = 200"
proof -
  let ?s = "\<lparr>env = [''PIPECAT_API_KEY'' \<mapsto> ''sk-1'',
                    ''PIPECAT_API_URL'' \<mapsto> ''https://pipecat.example/start''],
             network = [], console = []\<rparr>"
  let ?data = "JObj [(''dailyRoom'', JStr ''https://x.daily.co/r''),
                     (''dailyToken'', JStr ''tok'')]"
  let ?r = "\<lparr>status = 201, statusText = ''Created'',
      res_text = Inr ''{\"dailyRoom\":\"https://x.daily.co/r\",\"dailyToken\":\"tok\"}'',
      res_json = Inr ?data\<rparr>"
  have p: "(connect_request ''sk-1'' ''https://pipecat.example/start'', Resolved ?r)
      \<in> set (performed (answering (Resolved ?r)) ?s)"
    by (simp add: performed_configured truthy_def answering_def)
  have lo: "200 \<le> status ?r" and hi: "status ?r \<le> 299"
    and j: "res_json ?r = Inr ?data" and nn: "?data \<noteq> JNull"
    by simp_all
  show ?thesis
    using p any_2xx_answers_200 [OF p lo hi j nn] by simp
qed

text \<open>
  C10 as stated fails on the body \<^verbatim>\<open>null\<close>, which parses as JSON. Reading
  \<^verbatim>\<open>data.dailyRoom\<close> of \<^verbatim>\<open>null\<close> throws, the \<^verbatim>\<open>catch\<close> takes it, and the handler answers 500 to an upstream 200.
\<close>

theorem null_body_fails:
  "(connect_request ''sk-1'' ''https://pipecat.example/start'',
    Resolved \<lparr>status = 200, statusText = ''OK'',
      res_text = Inr ''null'', res_json = Inr JNull\<rparr>)
     \<in> set (performed
        (answering (Resolved \<lparr>status = 200, statusText = ''OK'',
           res_text = Inr ''null'', res_json = Inr JNull\<rparr>))
        \<lparr>env = [''PIPECAT_API_KEY'' \<mapsto> ''sk-1'',
                ''PIPECAT_API_URL'' \<mapsto> ''https://pipecat.example/start''],
         network = [], console = []\<rparr>)
   \<and> fst (POST
        (answering (Resolved \<lparr>status = 200, statusText = ''OK'',
           res_text = Inr ''null'', res_json = Inr JNull\<rparr>))
        \<lparr>env = [''PIPECAT_API_KEY'' \<mapsto> ''sk-1'',
                ''PIPECAT_API_URL'' \<mapsto> ''https://pipecat.example/start''],
         network = [], console = []\<rparr>) =
      \<lparr>nr_status = 500,
       nr_body = [(''error'', Some (JStr ''Failed to connect to Pipecat service''))]\<rparr>"
  by (simp add: performed_def POST_def POST_try_def truthy_def Let_def answering_def ok_def
      NextResponse_json_def)

end
